theory Spec2Isabelle
  imports Main
begin

section \<open>dpi: the DuckDB Parquet/CSV inspector (cmd/root.go)\<close>

text \<open>
  A shallow embedding of \<^verbatim>\<open>cmd/root.go\<close>. Go strings are byte strings (\<open>string\<close>),
  Go errors are their \<^verbatim>\<open>Error()\<close> texts, and every call that leaves the program (stat,
  glob, creating the temporary directory, running a subprocess) reads a field of the
  record \<open>os_env\<close>, which stands for the machine the command runs on. What the main
  goroutine does to the outside world is recorded, in program order, as a list of
  events; \<^verbatim>\<open>os.Exit\<close> ends the run at once and \<^bold>\<open>does not\<close> run deferred calls, a
  normal return runs them last-in first-out, as in Go.
\<close>

subsection \<open>Characters and library functions\<close>

abbreviation (input) sq :: char where "sq \<equiv> CHR 0x27"

abbreviation (input) nl :: string where "nl \<equiv> [CHR 0x0A]"

text \<open>The path separator of \<^verbatim>\<open>os.IsPathSeparator\<close> on Unix.\<close>

definition IsPathSeparator :: "char \<Rightarrow> bool" where
  "IsPathSeparator c = (c = CHR ''/'')"

text \<open>
  \<^verbatim>\<open>filepath.Ext\<close>: walk back from the last byte while the byte is not a separator;
  at the first dot return the suffix that starts there; otherwise the empty string.
  \<open>ext_scan\<close> takes the bytes still to visit (last byte first) and the suffix
  already passed.
\<close>

fun ext_scan :: "string \<Rightarrow> string \<Rightarrow> string" where
  "ext_scan [] suffix = []"
| "ext_scan (c # front) suffix =
     (if IsPathSeparator c then []
      else if c = CHR ''.'' then c # suffix
      else ext_scan front (c # suffix))"

definition filepath_Ext :: "string \<Rightarrow> string" where
  "filepath_Ext path = ext_scan (rev path) []"

text \<open>
  \<^verbatim>\<open>strings.ToLower\<close> on the bytes of a string: the ASCII capitals go to their small
  letters, every other byte stays. (On a rune outside ASCII Go may return another rune;
  the only ASCII letters such a rune can become are k and i, which no recognised
  extension contains, so the comparisons of \<open>determineFileFormat\<close> are not affected.)
\<close>

definition upper_letters :: string where
  "upper_letters = ''ABCDEFGHIJKLMNOPQRSTUVWXYZ''"

definition lower_letters :: string where
  "lower_letters = ''abcdefghijklmnopqrstuvwxyz''"

definition toLower_char :: "char \<Rightarrow> char" where
  "toLower_char c =
     (case map_of (zip upper_letters lower_letters) c of Some l \<Rightarrow> l | None \<Rightarrow> c)"

definition strings_ToLower :: "string \<Rightarrow> string" where
  "strings_ToLower s = map toLower_char s"

text \<open>\<^verbatim>\<open>strings.Join\<close>.\<close>

fun strings_Join :: "string list \<Rightarrow> string \<Rightarrow> string" where
  "strings_Join [] sep = []"
| "strings_Join [e] sep = e"
| "strings_Join (e # es) sep = e @ sep @ strings_Join es sep"

text \<open>
  \<^verbatim>\<open>filepath.Join\<close> on Unix: the elements from the first non-empty one on are joined
  with the separator and the result is cleaned by \<^verbatim>\<open>filepath.Clean\<close>. Clean works on
  the elements between separators: empty elements and \<open>.\<close> are dropped, \<open>..\<close>
  removes the element before it when there is one to remove, is dropped at the root and
  is kept at the start of a relative path; an empty result is \<open>.\<close>.
\<close>

fun split_sep :: "string \<Rightarrow> string list" where
  "split_sep [] = [[]]"
| "split_sep (c # cs) =
     (if IsPathSeparator c then [] # split_sep cs
      else (case split_sep cs of
              [] \<Rightarrow> [[c]]
            | e # es \<Rightarrow> (c # e) # es))"

definition clean_elem :: "bool \<Rightarrow> string list \<Rightarrow> string \<Rightarrow> string list" where
  "clean_elem rooted out e =
     (if e = [] \<or> e = ''.'' then out
      else if e = ''..'' then
        (if out \<noteq> [] \<and> last out \<noteq> ''..'' then butlast out
         else if \<not> rooted then out @ [''..'']
         else out)
      else out @ [e])"

definition filepath_Clean :: "string \<Rightarrow> string" where
  "filepath_Clean path =
     (case path of
        [] \<Rightarrow> ''.''
      | c # _ \<Rightarrow>
          (let rooted = IsPathSeparator c;
               out = foldl (clean_elem rooted) [] (split_sep path);
               s = (if rooted then ''/'' else []) @ strings_Join out ''/''
           in if s = [] then ''.'' else s))"

definition filepath_Join :: "string \<Rightarrow> string \<Rightarrow> string" where
  "filepath_Join a b =
     (if a \<noteq> [] then filepath_Clean (strings_Join [a, b] ''/'')
      else if b \<noteq> [] then filepath_Clean b
      else [])"

subsection \<open>The data of the program\<close>

text \<open>\<^verbatim>\<open>type FileFormat string\<close> with its two constants; the empty string is "unsupported".\<close>

type_synonym FileFormat = string

definition Parquet :: FileFormat where
  "Parquet = ''parquet''"

definition CSV :: FileFormat where
  "CSV = ''csv''"

definition TableName :: string where
  "TableName = ''p''"

text \<open>One or more file names, each in single quotes, separated by commas.\<close>

type_synonym FileNameString = string

text \<open>A Go \<^verbatim>\<open>error\<close> value is modelled by its message.\<close>

type_synonym error = string

subsection \<open>The machine\<close>

text \<open>
  The outcome of \<^verbatim>\<open>os.Stat\<close>: success, or the error it failed with. \<^verbatim>\<open>os.IsNotExist\<close> is
  true of \<open>ENOENT\<close> only.
\<close>

datatype errno = ENOENT | EACCES | ENOTDIR | ELOOP | ENAMETOOLONG | EIO

datatype stat_result = StatOk | StatErr errno

text \<open>
  \<^verbatim>\<open>filepath.Glob\<close> returns the matches in its expansion order, or \<^verbatim>\<open>ErrBadPattern\<close>,
  its only error.
\<close>

datatype glob_result = ErrBadPattern | Matches "string list"

text \<open>
  \<^verbatim>\<open>cmd.Run\<close> returns nil when the child ran and exited with status 0; otherwise the
  child could not be started, or it ran and ended badly (a non-zero status, a signal).
\<close>

datatype run_error = SpawnError string | ExitError string

record os_env =
  stat :: "string \<Rightarrow> stat_result"
  glob :: "string \<Rightarrow> glob_result"
  mkdirTemp :: "error + string"
  run :: "string list \<Rightarrow> run_error option"

fun run_error_text :: "run_error \<Rightarrow> error" where
  "run_error_text (SpawnError m) = m"
| "run_error_text (ExitError m) = m"

definition os_IsNotExist :: "stat_result \<Rightarrow> bool" where
  "os_IsNotExist r = (r = StatErr ENOENT)"

text \<open>What the main goroutine does, in program order.\<close>

datatype event =
    Stdout string
  | Stderr string
  | MkdirTemp string
  | Cmd "string list"
  | RemoveAll string
  | OsExit nat

text \<open>
  How \<open>runCommand\<close> ends: \<^verbatim>\<open>os.Exit\<close> with a status, a normal return, or the panic
  of an index out of range.
\<close>

datatype outcome = Exited nat | Returned | Panicked

record result =
  trace :: "event list"
  outcome :: outcome

subsection \<open>The functions of cmd/root.go\<close>

definition exitWithError :: "event list \<Rightarrow> string \<Rightarrow> result" where
  "exitWithError tr msg =
     \<lparr>trace = tr @ [Stderr (''Error: '' @ msg @ nl), OsExit 1], outcome = Exited 1\<rparr>"

definition fileExists :: "os_env \<Rightarrow> string \<Rightarrow> bool" where
  "fileExists env filename = (\<not> os_IsNotExist (stat env filename))"

definition createTempDirectory :: "os_env \<Rightarrow> error + string" where
  "createTempDirectory env = mkdirTemp env"

definition determineFileFormat :: "string \<Rightarrow> FileFormat" where
  "determineFileFormat filename =
     (let ext = filepath_Ext filename;
          l = strings_ToLower ext
      in if l = ''.parquet'' then Parquet
         else if l = ''.csv'' \<or> l = ''.gz'' then CSV
         else [])"

definition executeCommand :: "os_env \<Rightarrow> string list \<Rightarrow> event list \<times> error option" where
  "executeCommand env args =
     (if length args = 0 then ([], Some ''no command provided'')
      else ([Cmd args], map_option run_error_text (run env args)))"

text \<open>The verb \<^verbatim>\<open>%v\<close> of a boolean.\<close>

definition fmt_bool :: "bool \<Rightarrow> string" where
  "fmt_bool b = (if b then ''true'' else ''false'')"

text \<open>
  \<open>createTemporaryTable\<close>: the \<^verbatim>\<open>switch\<close> gives the statement or returns the error of
  an unsupported format; then the statement is run. The result is the events of the
  call and the error it returns (\<open>None\<close> is \<^verbatim>\<open>nil\<close>).
\<close>

definition createTemporaryTable ::
  "os_env \<Rightarrow> FileNameString \<Rightarrow> string \<Rightarrow> FileFormat \<Rightarrow> bool \<Rightarrow> event list \<times> error option" where
  "createTemporaryTable env filename tempDir fileFormat strict =
     (case (if fileFormat = Parquet then
              Inr (''CREATE TABLE '' @ TableName @ '' AS SELECT * FROM read_parquet(['' @ filename @ '']);'')
            else if fileFormat = CSV then
              Inr (''CREATE TABLE '' @ TableName @ '' AS SELECT * FROM read_csv('' @ filename
                     @ '', strict_mode='' @ fmt_bool strict @ '');'')
            else Inl (''unsupported file format: '' @ fileFormat)) of
        Inl err \<Rightarrow> ([], Some err)
      | Inr query \<Rightarrow>
          (let duckdbPath = filepath_Join tempDir ''tmp.duckdb'';
               cmds = [''duckdb'', duckdbPath, ''-c'', query]
           in case executeCommand env cmds of
                (evs, Some err) \<Rightarrow> (evs, Some (''failed to create temporary table: '' @ err))
              | (evs, None) \<Rightarrow> (evs, None)))"

definition findParquetFiles :: "os_env \<Rightarrow> string \<Rightarrow> error + string list" where
  "findParquetFiles env pattern =
     (case glob env pattern of
        ErrBadPattern \<Rightarrow>
          Inl (''invalid file pattern '' @ [sq] @ pattern @ [sq] @ '': '' @ ''syntax error in pattern'')
      | Matches files \<Rightarrow> Inr files)"

text \<open>The loop of \<open>processInputFiles\<close> that appends each file in quotes.\<close>

fun quote_files :: "string list \<Rightarrow> string list \<Rightarrow> string list" where
  "quote_files [] filenames = filenames"
| "quote_files (f # files) filenames = quote_files files (filenames @ [[sq] @ f @ [sq]])"

definition processInputFiles :: "os_env \<Rightarrow> string \<Rightarrow> FileFormat \<Rightarrow> error + FileNameString" where
  "processInputFiles env filePath fileFormat =
     (if fileFormat = Parquet then
        (case findParquetFiles env filePath of
           Inl err \<Rightarrow> Inl err
         | Inr files \<Rightarrow>
             if length files = 0 then
               Inl (''no Parquet files found matching pattern: '' @ filePath)
             else Inr (strings_Join (quote_files files []) '',''))
      else
        (if \<not> fileExists env filePath then Inl (''file does not exist: '' @ filePath)
         else Inr ([sq] @ filePath @ [sq])))"

subsection \<open>The signal listener\<close>

text \<open>
  \<open>setupSignalHandler\<close> registers the two signals on a channel and starts one goroutine
  that receives from the channel once, stores \<open>true\<close> in the flag, prints a notice and
  ends. A signal that arrives once the goroutine has ended stays in the channel (or is
  dropped when the channel is full) and nobody reads it.
\<close>

datatype signal = SIGINT | SIGTERM

fun signal_String :: "signal \<Rightarrow> string" where
  "signal_String SIGINT = ''interrupt''"
| "signal_String SIGTERM = ''terminated''"

fun signal_number :: "signal \<Rightarrow> nat" where
  "signal_number SIGINT = 2"
| "signal_number SIGTERM = 15"

record listener =
  signalReceived :: bool
  waiting :: bool
  notices :: "event list"

definition listener_init :: listener where
  "listener_init = \<lparr>signalReceived = False, waiting = True, notices = []\<rparr>"

definition listener_step :: "listener \<Rightarrow> signal \<Rightarrow> listener" where
  "listener_step st sig =
     (if waiting st then
        \<lparr>signalReceived = True, waiting = False,
         notices = notices st @
           [Stderr (nl @ ''Received signal '' @ signal_String sig @ '', waiting for DuckDB to exit...'' @ nl)]\<rparr>
      else st)"

definition deliver :: "signal list \<Rightarrow> listener" where
  "deliver sigs = foldl listener_step listener_init sigs"

subsection \<open>The run\<close>

text \<open>
  The deferred calls of \<open>runCommand\<close>. The list holds the most recently deferred
  call first, the order in which a return runs them. The function returned by
  \<open>setupSignalHandler\<close> reads the flag: when it is set it prints a line and calls
  \<^verbatim>\<open>os.Exit(130)\<close>, so nothing deferred before it runs any more.
\<close>

datatype deferred = CleanupSignalHandler | RemoveAllDir string

fun run_deferred :: "bool \<Rightarrow> deferred list \<Rightarrow> event list \<Rightarrow> result" where
  "run_deferred flag [] tr = \<lparr>trace = tr, outcome = Returned\<rparr>"
| "run_deferred flag (RemoveAllDir d # ds) tr = run_deferred flag ds (tr @ [RemoveAll d])"
| "run_deferred flag (CleanupSignalHandler # ds) tr =
     (if flag then
        \<lparr>trace = tr @ [Stderr (''Cleanup completed, exiting'' @ nl), OsExit 130],
         outcome = Exited 130\<rparr>
      else run_deferred flag ds tr)"

text \<open>
  \<open>runCommand\<close>. The list \<open>sigs\<close> holds the signals the listener has been handed by
  the time the deferred function loads the flag; \<open>strict\<close> is the value of the flag
  \<^verbatim>\<open>--strict\<close>. The notices of the listener go to standard error from its own goroutine
  and are not part of the trace of the main goroutine.
\<close>

definition banner_setup :: string where
  "banner_setup = ''============== Initial dpi setup ==============''"

definition banner_cli :: string where
  "banner_cli = ''============== Starting DuckDB CLI ==============''"

definition runCommand :: "os_env \<Rightarrow> signal list \<Rightarrow> string list \<Rightarrow> bool \<Rightarrow> result" where
  "runCommand env sigs args strict =
     (let flag = signalReceived (deliver sigs);
          ds0 = [CleanupSignalHandler];
          tr0 = [Stdout (banner_setup @ nl)]
      in case args of
           [] \<Rightarrow>
             (let r = run_deferred flag ds0 tr0
              in if outcome r = Returned then r\<lparr>outcome := Panicked\<rparr> else r)
         | filePath # _ \<Rightarrow>
             (let fileFormat = determineFileFormat filePath
              in if fileFormat = [] then
                   exitWithError tr0 (''Unsupported file format for file: '' @ filePath)
                 else
                   (let tr1 = tr0 @ [Stdout (''Detected file format: '' @ fileFormat @ nl)]
                    in case createTempDirectory env of
                         Inl err \<Rightarrow>
                           exitWithError tr1 (''Failed to create temporary directory: '' @ err)
                       | Inr tempDir \<Rightarrow>
                           (let ds1 = RemoveAllDir tempDir # ds0;
                                tr2 = tr1 @ [MkdirTemp tempDir,
                                             Stdout (''Using temporary directory: '' @ tempDir @ nl)]
                            in case processInputFiles env filePath fileFormat of
                                 Inl err \<Rightarrow> exitWithError tr2 err
                               | Inr filename \<Rightarrow>
                                   (case createTemporaryTable env filename tempDir fileFormat strict of
                                      (evs, Some err) \<Rightarrow>
                                        exitWithError (tr2 @ evs)
                                          (''Creating temporary table failed: '' @ err)
                                    | (evs, None) \<Rightarrow>
                                        (let tr3 = tr2 @ evs @
                                               [Stdout (''Temporary table created successfully'' @ nl),
                                                Stdout (banner_cli @ nl)];
                                             duckdbPath = filepath_Join tempDir ''tmp.duckdb'';
                                             cmds = [''duckdb'', duckdbPath]
                                         in case executeCommand env cmds of
                                              (evs', Some err) \<Rightarrow>
                                                exitWithError (tr3 @ evs')
                                                  (''Failed to execute DuckDB: '' @ err)
                                            | (evs', None) \<Rightarrow>
                                                run_deferred flag ds1 (tr3 @ evs')))))))"

text \<open>
  Modelled from the spec: the program's \<^verbatim>\<open>main\<close> and the dispatch of the command-line
  framework are not among the sources. Once \<open>runCommand\<close> returns they return too, and
  a Go program whose \<^verbatim>\<open>main\<close> returns exits with status 0 ("0 normal success"); an
  unrecovered panic ends a Go program with status 2.
\<close>

fun exit_status :: "outcome \<Rightarrow> nat" where
  "exit_status (Exited n) = n"
| "exit_status Returned = 0"
| "exit_status Panicked = 2"

subsection \<open>Notions used to state the properties\<close>

text \<open>
  Equality of two bytes, and of two strings, up to the case of ASCII letters: the bytes
  are the same, or one is a capital and the other is its small letter.
\<close>

definition ci_char_eq :: "char \<Rightarrow> char \<Rightarrow> bool" where
  "ci_char_eq x y =
     (x = y \<or> (x, y) \<in> set (zip upper_letters lower_letters)
            \<or> (y, x) \<in> set (zip upper_letters lower_letters))"

definition ci_eq :: "string \<Rightarrow> string \<Rightarrow> bool" where
  "ci_eq a b = list_all2 ci_char_eq a b"

text \<open>The subprocess invocations of a trace, in order.\<close>

fun cmds_of :: "event list \<Rightarrow> string list list" where
  "cmds_of [] = []"
| "cmds_of (Cmd args # evs) = args # cmds_of evs"
| "cmds_of (ev # evs) = cmds_of evs"

text \<open>
  A path element that \<^verbatim>\<open>filepath.Clean\<close> keeps as it is, and an absolute path made of
  such elements only, as \<^verbatim>\<open>os.MkdirTemp\<close> returns it when the temporary location is
  itself such a path.
\<close>

definition plain_elem :: "string \<Rightarrow> bool" where
  "plain_elem e = (e \<noteq> [] \<and> list_all (\<lambda>c. c \<noteq> CHR ''/'') e \<and> e \<noteq> ''.'' \<and> e \<noteq> ''..'')"

definition abs_path :: "string list \<Rightarrow> string" where
  "abs_path es = concat (map (\<lambda>e. CHR ''/'' # e) es)"

text \<open>
  String literals as SQL (and DuckDB) reads them: a literal opens with a single quote
  and closes at the next single quote that is not doubled; two single quotes in a row
  inside a literal stand for one quote character of its value. \<open>sql_scan Start s\<close>
  reads \<open>s\<close> as a list of literals separated by commas and returns their values, or
  \<open>None\<close> when \<open>s\<close> is not such a list. The state says where the scanner is: before a
  literal, inside one (with the value read so far), or just after a quote inside one.
\<close>

datatype lex = Start | InLit string | Quote string

fun sql_scan :: "lex \<Rightarrow> string \<Rightarrow> string list option" where
  "sql_scan Start [] = None"
| "sql_scan Start (c # cs) = (if c = sq then sql_scan (InLit []) cs else None)"
| "sql_scan (InLit s) [] = None"
| "sql_scan (InLit s) (c # cs) =
     (if c = sq then sql_scan (Quote s) cs else sql_scan (InLit (s @ [c])) cs)"
| "sql_scan (Quote s) [] = Some [s]"
| "sql_scan (Quote s) (c # cs) =
     (if c = sq then sql_scan (InLit (s @ [sq])) cs
      else if c = CHR '','' then map_option (Cons s) (sql_scan Start cs)
      else None)"

text \<open>
  The run has met one of its fatal errors: the format is unsupported, the temporary
  directory cannot be created, the input does not resolve, the load fails, or the
  interactive session cannot be run.
\<close>

definition run_fails :: "os_env \<Rightarrow> string \<Rightarrow> bool \<Rightarrow> bool" where
  "run_fails env filePath strict =
     (let fileFormat = determineFileFormat filePath
      in if fileFormat = [] then True
         else (case mkdirTemp env of
                 Inl err \<Rightarrow> True
               | Inr tempDir \<Rightarrow>
                   (case processInputFiles env filePath fileFormat of
                      Inl err \<Rightarrow> True
                    | Inr filename \<Rightarrow>
                        (case snd (createTemporaryTable env filename tempDir fileFormat strict) of
                           Some err \<Rightarrow> True
                         | None \<Rightarrow>
                             (case run env [''duckdb'', filepath_Join tempDir ''tmp.duckdb''] of
                                Some err \<Rightarrow> True
                              | None \<Rightarrow> False)))))"

text \<open>
  A machine for the examples: \<^verbatim>\<open>data.csv\<close> exists, \<^verbatim>\<open>secret/data.csv\<close> cannot be
  examined, no other path exists; \<^verbatim>\<open>*.parquet\<close> matches two files; the temporary
  directory is \<^verbatim>\<open>/tmp/dpi123\<close>; every subprocess succeeds. \<open>failing_env\<close> is the same
  machine on which the subprocesses named by \<open>bad\<close> fail.
\<close>

definition example_env :: os_env where
  "example_env =
     \<lparr>stat = (\<lambda>p. if p = ''data.csv'' then StatOk
                    else if p = ''secret/data.csv'' then StatErr EACCES
                    else StatErr ENOENT),
      glob = (\<lambda>p. if p = ''*.parquet'' then Matches [''a.parquet'', ''b.parquet'']
                    else if p = ''[.parquet'' then ErrBadPattern
                    else Matches []),
      mkdirTemp = Inr ''/tmp/dpi123'',
      run = (\<lambda>args. None)\<rparr>"

definition failing_env :: "(string list \<Rightarrow> run_error option) \<Rightarrow> os_env" where
  "failing_env bad = example_env\<lparr>run := bad\<rparr>"

text \<open>
  The example machine on which the load fails, and the one on which the interactive
  session ends with an error.
\<close>

definition load_fail_env :: os_env where
  "load_fail_env =
     failing_env (\<lambda>args. if ''-c'' \<in> set args then Some (ExitError ''exit status 1'') else None)"

definition launch_fail_env :: os_env where
  "launch_fail_env =
     failing_env (\<lambda>args. if ''-c'' \<in> set args then None else Some (ExitError ''signal: terminated''))"





section \<open>Properties\<close>

subsection \<open>Letters and case\<close>

lemma distinct_upper: "distinct upper_letters"
  by (simp add: upper_letters_def)

lemma distinct_lower: "distinct lower_letters"
  by (simp add: lower_letters_def)

lemma length_letters: "length upper_letters = length lower_letters"
  by (simp add: upper_letters_def lower_letters_def)

lemma lower_not_upper_all: "list_all (\<lambda>y. y \<notin> set upper_letters) lower_letters"
  by (simp add: upper_letters_def lower_letters_def)

lemma lower_not_upper:
  assumes "y \<in> set lower_letters"
  shows "y \<notin> set upper_letters"
proof -
  have "\<forall>y\<in>set lower_letters. y \<notin> set upper_letters"
    using lower_not_upper_all by (simp only: list_all_iff)
  then show ?thesis using assms by (rule bspec)
qed

lemma zip_right_unique:
  "distinct ys \<Longrightarrow> (x, y) \<in> set (zip xs ys) \<Longrightarrow> (x', y) \<in> set (zip xs ys) \<Longrightarrow> x = x'"
proof (induction xs arbitrary: ys)
  case Nil
  then show ?case by simp
next
  case (Cons a xs)
  then show ?case
    by (cases ys) (auto dest: set_zip_rightD)
qed

lemma toLower_pair:
  assumes "(x, y) \<in> set (zip upper_letters lower_letters)"
  shows "toLower_char x = y"
proof -
  have "distinct (map fst (zip upper_letters lower_letters))"
    using distinct_upper length_letters by simp
  then have "map_of (zip upper_letters lower_letters) x = Some y"
    using assms by (rule map_of_is_SomeI)
  then show ?thesis by (simp add: toLower_char_def)
qed

lemma toLower_not_upper: "x \<notin> set upper_letters \<Longrightarrow> toLower_char x = x"
proof -
  assume "x \<notin> set upper_letters"
  then have "x \<notin> fst ` set (zip upper_letters lower_letters)"
    by (metis in_set_zipE imageE prod.collapse set_zip_leftD)
  then have "map_of (zip upper_letters lower_letters) x = None"
    by (simp add: map_of_eq_None_iff)
  then show ?thesis by (simp add: toLower_char_def)
qed

lemma toLower_upper:
  "x \<in> set upper_letters \<Longrightarrow> (x, toLower_char x) \<in> set (zip upper_letters lower_letters)"
proof -
  assume "x \<in> set upper_letters"
  then obtain y where "(x, y) \<in> set (zip upper_letters lower_letters)"
    using length_letters by (metis in_set_impl_in_set_zip1)
  then show ?thesis using toLower_pair by auto
qed

lemma toLower_ci: "toLower_char x = toLower_char y \<longleftrightarrow> ci_char_eq x y"
proof
  assume eq: "toLower_char x = toLower_char y"
  show "ci_char_eq x y"
  proof (cases "x \<in> set upper_letters")
    case xu: True
    show ?thesis
    proof (cases "y \<in> set upper_letters")
      case True
      have a: "(x, toLower_char x) \<in> set (zip upper_letters lower_letters)"
        by (rule toLower_upper [OF xu])
      have "(y, toLower_char y) \<in> set (zip upper_letters lower_letters)"
        by (rule toLower_upper [OF True])
      then have b: "(y, toLower_char x) \<in> set (zip upper_letters lower_letters)"
        by (simp only: eq)
      have "x = y" by (rule zip_right_unique [OF distinct_lower a b])
      then show ?thesis by (simp add: ci_char_eq_def)
    next
      case False
      then have "toLower_char y = y" by (rule toLower_not_upper)
      with eq toLower_upper [OF xu] show ?thesis by (simp add: ci_char_eq_def)
    qed
  next
    case xn: False
    then have x: "toLower_char x = x" by (rule toLower_not_upper)
    show ?thesis
    proof (cases "y \<in> set upper_letters")
      case True
      with eq x toLower_upper [OF True] show ?thesis by (simp add: ci_char_eq_def)
    next
      case False
      then have "toLower_char y = y" by (rule toLower_not_upper)
      with eq x show ?thesis by (simp add: ci_char_eq_def)
    qed
  qed
next
  assume "ci_char_eq x y"
  then consider "x = y" | "(x, y) \<in> set (zip upper_letters lower_letters)"
    | "(y, x) \<in> set (zip upper_letters lower_letters)"
    by (auto simp: ci_char_eq_def)
  then show "toLower_char x = toLower_char y"
  proof cases
    case 1
    then show ?thesis by simp
  next
    case 2
    then have "y \<notin> set upper_letters" by (meson lower_not_upper set_zip_rightD)
    then show ?thesis using toLower_pair [OF 2] toLower_not_upper by simp
  next
    case 3
    then have "x \<notin> set upper_letters" by (meson lower_not_upper set_zip_rightD)
    then show ?thesis using toLower_pair [OF 3] toLower_not_upper by simp
  qed
qed

lemma ToLower_ci: "strings_ToLower a = strings_ToLower b \<longleftrightarrow> ci_eq a b"
  unfolding strings_ToLower_def ci_eq_def
proof (induction a arbitrary: b)
  case Nil
  then show ?case by auto
next
  case (Cons x a)
  then show ?case by (cases b) (auto simp: toLower_ci)
qed

lemma ToLower_fixed:
  "strings_ToLower ''.parquet'' = ''.parquet''"
  "strings_ToLower ''.csv'' = ''.csv''"
  "strings_ToLower ''.gz'' = ''.gz''"
  by (simp_all add: strings_ToLower_def toLower_char_def upper_letters_def lower_letters_def)

lemma ToLower_is:
  "strings_ToLower e = ''.parquet'' \<longleftrightarrow> ci_eq e ''.parquet''"
  "strings_ToLower e = ''.csv'' \<longleftrightarrow> ci_eq e ''.csv''"
  "strings_ToLower e = ''.gz'' \<longleftrightarrow> ci_eq e ''.gz''"
  using ToLower_ci [of e "''.parquet''"] ToLower_ci [of e "''.csv''"] ToLower_ci [of e "''.gz''"]
  by (simp_all only: ToLower_fixed)

lemma determineFileFormat_ci:
  "determineFileFormat path =
     (if ci_eq (filepath_Ext path) ''.parquet'' then Parquet
      else if ci_eq (filepath_Ext path) ''.csv'' \<or> ci_eq (filepath_Ext path) ''.gz'' then CSV
      else [])"
  by (simp only: determineFileFormat_def Let_def ToLower_is)

lemma determineFileFormat_cases:
  "determineFileFormat path = Parquet \<or> determineFileFormat path = CSV
   \<or> determineFileFormat path = []"
  by (simp add: determineFileFormat_def Let_def)

lemma formats_distinct: "Parquet \<noteq> []" "CSV \<noteq> []" "CSV \<noteq> Parquet"
  by (simp_all add: Parquet_def CSV_def)

subsection \<open>The paths through the run\<close>

text \<open>
  One equation for each way \<open>runCommand\<close> can go: the four places where it calls
  \<open>exitWithError\<close> after the format is known, the one before, and the normal return.
\<close>

lemma run_unsupported:
  "determineFileFormat p = [] \<Longrightarrow>
   runCommand env sigs (p # rest) strict =
     exitWithError [Stdout (banner_setup @ nl)] (''Unsupported file format for file: '' @ p)"
  by (simp add: runCommand_def Let_def)

lemma run_mkdir_fails:
  "determineFileFormat p \<noteq> [] \<Longrightarrow> mkdirTemp env = Inl err \<Longrightarrow>
   runCommand env sigs (p # rest) strict =
     exitWithError [Stdout (banner_setup @ nl),
                    Stdout (''Detected file format: '' @ determineFileFormat p @ nl)]
       (''Failed to create temporary directory: '' @ err)"
  by (simp add: runCommand_def Let_def createTempDirectory_def)

lemma run_resolve_fails:
  "determineFileFormat p \<noteq> [] \<Longrightarrow> mkdirTemp env = Inr d \<Longrightarrow>
   processInputFiles env p (determineFileFormat p) = Inl err \<Longrightarrow>
   runCommand env sigs (p # rest) strict =
     exitWithError [Stdout (banner_setup @ nl),
                    Stdout (''Detected file format: '' @ determineFileFormat p @ nl),
                    MkdirTemp d,
                    Stdout (''Using temporary directory: '' @ d @ nl)]
       err"
  by (simp add: runCommand_def Let_def createTempDirectory_def)

lemma run_load_fails:
  "determineFileFormat p \<noteq> [] \<Longrightarrow> mkdirTemp env = Inr d \<Longrightarrow>
   processInputFiles env p (determineFileFormat p) = Inr fn \<Longrightarrow>
   createTemporaryTable env fn d (determineFileFormat p) strict = (evs, Some err) \<Longrightarrow>
   runCommand env sigs (p # rest) strict =
     exitWithError ([Stdout (banner_setup @ nl),
                     Stdout (''Detected file format: '' @ determineFileFormat p @ nl),
                     MkdirTemp d,
                     Stdout (''Using temporary directory: '' @ d @ nl)] @ evs)
       (''Creating temporary table failed: '' @ err)"
  by (simp add: runCommand_def Let_def createTempDirectory_def)

lemma run_launch_fails:
  "determineFileFormat p \<noteq> [] \<Longrightarrow> mkdirTemp env = Inr d \<Longrightarrow>
   processInputFiles env p (determineFileFormat p) = Inr fn \<Longrightarrow>
   createTemporaryTable env fn d (determineFileFormat p) strict = (evs, None) \<Longrightarrow>
   run env [''duckdb'', filepath_Join d ''tmp.duckdb''] = Some e \<Longrightarrow>
   runCommand env sigs (p # rest) strict =
     exitWithError ([Stdout (banner_setup @ nl),
                     Stdout (''Detected file format: '' @ determineFileFormat p @ nl),
                     MkdirTemp d,
                     Stdout (''Using temporary directory: '' @ d @ nl)] @ evs @
                    [Stdout (''Temporary table created successfully'' @ nl),
                     Stdout (banner_cli @ nl),
                     Cmd [''duckdb'', filepath_Join d ''tmp.duckdb'']])
       (''Failed to execute DuckDB: '' @ run_error_text e)"
  by (simp add: runCommand_def Let_def createTempDirectory_def executeCommand_def)

lemma run_completes:
  "determineFileFormat p \<noteq> [] \<Longrightarrow> mkdirTemp env = Inr d \<Longrightarrow>
   processInputFiles env p (determineFileFormat p) = Inr fn \<Longrightarrow>
   createTemporaryTable env fn d (determineFileFormat p) strict = (evs, None) \<Longrightarrow>
   run env [''duckdb'', filepath_Join d ''tmp.duckdb''] = None \<Longrightarrow>
   runCommand env sigs (p # rest) strict =
     run_deferred (signalReceived (deliver sigs)) [RemoveAllDir d, CleanupSignalHandler]
       ([Stdout (banner_setup @ nl),
         Stdout (''Detected file format: '' @ determineFileFormat p @ nl),
         MkdirTemp d,
         Stdout (''Using temporary directory: '' @ d @ nl)] @ evs @
        [Stdout (''Temporary table created successfully'' @ nl),
         Stdout (banner_cli @ nl),
         Cmd [''duckdb'', filepath_Join d ''tmp.duckdb'']])"
  by (simp add: runCommand_def Let_def createTempDirectory_def executeCommand_def)

subsection \<open>Format detection\<close>

text \<open>
  Claim C4. The format is a function of the extension of the path alone, read without
  regard to the case of its letters: an extension that is \<^verbatim>\<open>.parquet\<close> up to case gives
  Parquet, one that is \<^verbatim>\<open>.csv\<close> or \<^verbatim>\<open>.gz\<close> up to case gives CSV, every other one gives the
  empty format; two paths whose extensions agree up to case get the same format; and on
  the empty format \<open>runCommand\<close> prints an error and exits with status 1, before
  anything else is done.
\<close>

theorem C4_format_detection:
  "determineFileFormat path =
     (if ci_eq (filepath_Ext path) ''.parquet'' then Parquet
      else if ci_eq (filepath_Ext path) ''.csv'' \<or> ci_eq (filepath_Ext path) ''.gz'' then CSV
      else [])
   \<and> (ci_eq (filepath_Ext p) (filepath_Ext q) \<longrightarrow> determineFileFormat p = determineFileFormat q)
   \<and> (determineFileFormat path = [] \<longrightarrow>
        runCommand env sigs (path # rest) strict =
          \<lparr>trace = [Stdout (banner_setup @ nl),
                    Stderr (''Error: Unsupported file format for file: '' @ path @ nl),
                    OsExit 1],
           outcome = Exited 1\<rparr>)"
proof (intro conjI impI)
  show "determineFileFormat path =
     (if ci_eq (filepath_Ext path) ''.parquet'' then Parquet
      else if ci_eq (filepath_Ext path) ''.csv'' \<or> ci_eq (filepath_Ext path) ''.gz'' then CSV
      else [])"
    by (rule determineFileFormat_ci)
next
  assume "ci_eq (filepath_Ext p) (filepath_Ext q)"
  then have "strings_ToLower (filepath_Ext p) = strings_ToLower (filepath_Ext q)"
    by (simp only: ToLower_ci)
  then show "determineFileFormat p = determineFileFormat q"
    by (simp add: determineFileFormat_def)
next
  assume "determineFileFormat path = []"
  then show "runCommand env sigs (path # rest) strict =
          \<lparr>trace = [Stdout (banner_setup @ nl),
                    Stderr (''Error: Unsupported file format for file: '' @ path @ nl),
                    OsExit 1],
           outcome = Exited 1\<rparr>"
    by (simp add: run_unsupported exitWithError_def)
qed

theorem C4_format_detection_witness:
  "determineFileFormat ''warehouse/2024.d/Sales.PaRquet'' = Parquet
   \<and> determineFileFormat ''logs.tar.GZ'' = CSV
   \<and> determineFileFormat ''a.Csv'' = determineFileFormat ''dir.x/b.cSV''
   \<and> determineFileFormat ''notes.txt'' = []
   \<and> outcome (runCommand example_env [] [''notes.txt''] False) = Exited 1"
proof -
  have e: "filepath_Ext ''warehouse/2024.d/Sales.PaRquet'' = ''.PaRquet''"
    "filepath_Ext ''logs.tar.GZ'' = ''.GZ''"
    "filepath_Ext ''a.Csv'' = ''.Csv''" "filepath_Ext ''dir.x/b.cSV'' = ''.cSV''"
    "filepath_Ext ''notes.txt'' = ''.txt''"
    by (simp_all add: filepath_Ext_def IsPathSeparator_def)
  have c: "ci_eq ''.PaRquet'' ''.parquet''" "ci_eq ''.GZ'' ''.gz''" "ci_eq ''.Csv'' ''.cSV''"
    "\<not> ci_eq ''.GZ'' ''.parquet''" "\<not> ci_eq ''.txt'' ''.parquet''"
    "\<not> ci_eq ''.txt'' ''.csv''" "\<not> ci_eq ''.txt'' ''.gz''" 
    by (simp_all add: ci_eq_def ci_char_eq_def upper_letters_def lower_letters_def)
  show ?thesis
    using C4_format_detection [of "''warehouse/2024.d/Sales.PaRquet''" "''a.Csv''" "''dir.x/b.cSV''"]
      C4_format_detection [of "''logs.tar.GZ''" "''a.Csv''" "''dir.x/b.cSV''"]
      C4_format_detection [of "''notes.txt''" "''a.Csv''" "''dir.x/b.cSV''" example_env "[]" "[]" False]
    by (simp add: e c)
qed

subsection \<open>Resolution of the input\<close>

lemma quote_files_map:
  "quote_files files acc = acc @ map (\<lambda>f. [sq] @ f @ [sq]) files"
  by (induction files arbitrary: acc) simp_all

lemma Join_quoted_nonempty:
  assumes "files \<noteq> []"
  shows "strings_Join (map (\<lambda>f. [sq] @ f @ [sq]) files) sep \<noteq> []"
proof (cases files)
  case Nil
  then show ?thesis using assms by simp
next
  case (Cons f fs)
  then show ?thesis by (cases fs) simp_all
qed

lemma resolve_parquet:
  "processInputFiles env p Parquet =
     (case glob env p of
        ErrBadPattern \<Rightarrow>
          Inl (''invalid file pattern '' @ [sq] @ p @ [sq] @ '': syntax error in pattern'')
      | Matches files \<Rightarrow>
          if files = [] then Inl (''no Parquet files found matching pattern: '' @ p)
          else Inr (strings_Join (map (\<lambda>f. [sq] @ f @ [sq]) files) '',''))"
  by (simp add: processInputFiles_def findParquetFiles_def quote_files_map
      split: glob_result.splits)

lemma resolve_other:
  "fileFormat \<noteq> Parquet \<Longrightarrow>
   processInputFiles env p fileFormat =
     (if stat env p = StatErr ENOENT then Inl (''file does not exist: '' @ p)
      else Inr ([sq] @ p @ [sq]))"
  by (simp add: processInputFiles_def fileExists_def os_IsNotExist_def)






lemma scan_plain:
  "sq \<notin> set f \<Longrightarrow> sql_scan (InLit s) (f @ rest) = sql_scan (InLit (s @ f)) rest"
  by (induction f arbitrary: s) auto

lemma scan_quoted:
  assumes "sq \<notin> set f"
  shows "sql_scan Start ([sq] @ f @ [sq]) = Some [f]"
    and "sql_scan Start ([sq] @ f @ [sq] @ '','' @ rest) = map_option (Cons f) (sql_scan Start rest)"
  using scan_plain [OF assms, of "[]" "[sq]"] scan_plain [OF assms, of "[]" "[sq] @ '','' @ rest"]
  by simp_all

lemma scan_back:
  "files \<noteq> [] \<Longrightarrow> \<forall>f\<in>set files. sq \<notin> set f \<Longrightarrow>
   sql_scan Start (strings_Join (map (\<lambda>f. [sq] @ f @ [sq]) files) '','') = Some files"
proof (induction files)
  case Nil
  then show ?case by simp
next
  case (Cons f files)
  show ?case
  proof (cases files)
    case Nil
    then show ?thesis using Cons.prems scan_quoted(1) [of f] by simp
  next
    case (Cons g gs)
    then have "sql_scan Start (strings_Join (map (\<lambda>f. [sq] @ f @ [sq]) files) '','') = Some files"
      using Cons.IH Cons.prems by simp
    then show ?thesis
      using Cons Cons.prems scan_quoted(2) [of f "strings_Join (map (\<lambda>f. [sq] @ f @ [sq]) files) '',''"]
      by simp
  qed
qed

text \<open>
  Claim C5. For the Parquet format the pattern is expanded. When the expansion gives
  one file or more, the result is those files, each between single quotes, joined with
  commas in the order of the expansion (and when no file name holds a quote, reading the
  result as a list of SQL literals gives back exactly the files, in order); when it
  gives no file, resolution fails with the no-match error; when the pattern is
  malformed, it fails with the bad-pattern error; the result is never empty.
\<close>

theorem C5_parquet_resolution:
  "(glob env p = Matches files \<and> files \<noteq> [] \<longrightarrow>
      processInputFiles env p Parquet
        = Inr (strings_Join (map (\<lambda>f. [sq] @ f @ [sq]) files) '','')
      \<and> ((\<forall>f\<in>set files. sq \<notin> set f) \<longrightarrow>
           sql_scan Start (strings_Join (map (\<lambda>f. [sq] @ f @ [sq]) files) '','') = Some files))
   \<and> (glob env p = Matches [] \<longrightarrow>
      processInputFiles env p Parquet = Inl (''no Parquet files found matching pattern: '' @ p))
   \<and> (glob env p = ErrBadPattern \<longrightarrow>
      processInputFiles env p Parquet
        = Inl (''invalid file pattern '' @ [sq] @ p @ [sq] @ '': syntax error in pattern''))
   \<and> processInputFiles env p Parquet \<noteq> Inr []"
proof (intro conjI impI)
  assume a: "glob env p = Matches files \<and> files \<noteq> []"
  then show "processInputFiles env p Parquet
        = Inr (strings_Join (map (\<lambda>f. [sq] @ f @ [sq]) files) '','')"
    by (simp add: resolve_parquet)
  assume b: "\<forall>f\<in>set files. sq \<notin> set f"
  from a have "files \<noteq> []" by simp
  then show "sql_scan Start (strings_Join (map (\<lambda>f. [sq] @ f @ [sq]) files) '','') = Some files"
    using b by (rule scan_back)
next
  assume "glob env p = Matches []"
  then show "processInputFiles env p Parquet = Inl (''no Parquet files found matching pattern: '' @ p)"
    by (simp add: resolve_parquet)
next
  assume "glob env p = ErrBadPattern"
  then show "processInputFiles env p Parquet
        = Inl (''invalid file pattern '' @ [sq] @ p @ [sq] @ '': syntax error in pattern'')"
    by (simp add: resolve_parquet)
next
  show "processInputFiles env p Parquet \<noteq> Inr []"
    by (simp add: resolve_parquet Join_quoted_nonempty [simplified] split: glob_result.splits)
qed

theorem C5_parquet_resolution_witness:
  "processInputFiles example_env ''*.parquet'' Parquet
     = Inr ([sq] @ ''a.parquet'' @ [sq] @ '','' @ [sq] @ ''b.parquet'' @ [sq])
   \<and> sql_scan Start ([sq] @ ''a.parquet'' @ [sq] @ '','' @ [sq] @ ''b.parquet'' @ [sq])
       = Some [''a.parquet'', ''b.parquet'']
   \<and> processInputFiles example_env ''nothing-*.parquet'' Parquet
       = Inl ''no Parquet files found matching pattern: nothing-*.parquet''
   \<and> processInputFiles example_env ''[.parquet'' Parquet
       = Inl (''invalid file pattern '' @ [sq] @ ''[.parquet'' @ [sq] @ '': syntax error in pattern'')"
  using C5_parquet_resolution [of example_env "''*.parquet''" "[''a.parquet'', ''b.parquet'']"]
    C5_parquet_resolution [of example_env "''nothing-*.parquet''" "[]"]
    C5_parquet_resolution [of example_env "''[.parquet''" "[]"]
  by (simp add: example_env_def)

text \<open>
  Claim C6. For the CSV format a path that exists resolves to that one path between
  single quotes, the representation of the one-element list; a path that does not exist
  fails with the not-found error; the pattern expansion plays no part in either.
\<close>

theorem C6_single_path_resolution:
  "(stat env p = StatOk \<longrightarrow> processInputFiles env p CSV = Inr ([sq] @ p @ [sq]))
   \<and> (stat env p = StatErr ENOENT \<longrightarrow>
        processInputFiles env p CSV = Inl (''file does not exist: '' @ p))
   \<and> processInputFiles (env\<lparr>glob := g\<rparr>) p CSV = processInputFiles env p CSV
   \<and> [sq] @ p @ [sq] = strings_Join (map (\<lambda>f. [sq] @ f @ [sq]) [p]) '',''"
  by (simp add: resolve_other formats_distinct)

theorem C6_single_path_resolution_witness:
  "processInputFiles example_env ''data.csv'' CSV = Inr ([sq] @ ''data.csv'' @ [sq])
   \<and> processInputFiles example_env ''missing.csv'' CSV = Inl ''file does not exist: missing.csv''
   \<and> processInputFiles (example_env\<lparr>glob := (\<lambda>p. Matches [''x.csv'', ''y.csv''])\<rparr>) ''data.csv'' CSV
       = Inr ([sq] @ ''data.csv'' @ [sq])"
  using C6_single_path_resolution [of example_env "''data.csv''" "\<lambda>p. Matches [''x.csv'', ''y.csv'']"]
    C6_single_path_resolution [of example_env "''missing.csv''"]
  by (simp add: example_env_def)

text \<open>
  Claim C10. \<open>fileExists\<close> is false exactly when stat fails with the does-not-exist
  error. So for the CSV format resolution fails, and with the not-found error, exactly
  in that case, and a path on which stat fails for another reason (permission denied,
  say) resolves as if it existed.
\<close>

theorem C10_exists_unless_not_exist:
  "(fileExists env f \<longleftrightarrow> stat env f \<noteq> StatErr ENOENT)
   \<and> (processInputFiles env f CSV = Inl (''file does not exist: '' @ f)
        \<longleftrightarrow> stat env f = StatErr ENOENT)
   \<and> ((\<exists>e. processInputFiles env f CSV = Inl e) \<longleftrightarrow> stat env f = StatErr ENOENT)
   \<and> (stat env f = StatErr e \<and> e \<noteq> ENOENT \<longrightarrow>
        fileExists env f \<and> processInputFiles env f CSV = Inr ([sq] @ f @ [sq]))"
  by (auto simp: resolve_other formats_distinct fileExists_def os_IsNotExist_def)

theorem C10_exists_unless_not_exist_witness:
  "fileExists example_env ''secret/data.csv''
   \<and> processInputFiles example_env ''secret/data.csv'' CSV = Inr ([sq] @ ''secret/data.csv'' @ [sq])
   \<and> \<not> fileExists example_env ''missing.csv''
   \<and> processInputFiles example_env ''missing.csv'' CSV = Inl ''file does not exist: missing.csv''"
  using C10_exists_unless_not_exist [of example_env "''secret/data.csv''" EACCES]
    C10_exists_unless_not_exist [of example_env "''missing.csv''" EACCES]
  by (simp add: example_env_def)

subsection \<open>The load statement\<close>

lemma load_parquet:
  "createTemporaryTable env fn d Parquet strict =
     ([Cmd [''duckdb'', filepath_Join d ''tmp.duckdb'', ''-c'',
            ''CREATE TABLE p AS SELECT * FROM read_parquet(['' @ fn @ '']);'']],
      map_option (\<lambda>e. ''failed to create temporary table: '' @ run_error_text e)
        (run env [''duckdb'', filepath_Join d ''tmp.duckdb'', ''-c'',
                  ''CREATE TABLE p AS SELECT * FROM read_parquet(['' @ fn @ '']);'']))"
  by (simp add: createTemporaryTable_def executeCommand_def TableName_def Let_def
      split: option.splits)

lemma load_csv:
  "createTemporaryTable env fn d CSV strict =
     ([Cmd [''duckdb'', filepath_Join d ''tmp.duckdb'', ''-c'',
            ''CREATE TABLE p AS SELECT * FROM read_csv('' @ fn @ '', strict_mode=''
              @ (if strict then ''true'' else ''false'') @ '');'']],
      map_option (\<lambda>e. ''failed to create temporary table: '' @ run_error_text e)
        (run env [''duckdb'', filepath_Join d ''tmp.duckdb'', ''-c'',
                  ''CREATE TABLE p AS SELECT * FROM read_csv('' @ fn @ '', strict_mode=''
                    @ (if strict then ''true'' else ''false'') @ '');'']))"
  by (simp add: createTemporaryTable_def executeCommand_def TableName_def Let_def fmt_bool_def
      formats_distinct split: option.splits)




subsection \<open>The database path\<close>

lemma split_sep_plain:
  "list_all (\<lambda>c. c \<noteq> CHR ''/'') e \<Longrightarrow> split_sep e = [e]"
  "list_all (\<lambda>c. c \<noteq> CHR ''/'') e \<Longrightarrow> split_sep (e @ CHR ''/'' # rest) = e # split_sep rest"
  by (induction e) (simp_all add: IsPathSeparator_def)

lemma split_sep_abs:
  "list_all (\<lambda>c. c \<noteq> CHR ''/'') e \<Longrightarrow> list_all plain_elem es \<Longrightarrow>
   split_sep (e @ abs_path es) = e # es"
proof (induction es arbitrary: e)
  case Nil
  then show ?case by (simp add: abs_path_def split_sep_plain)
next
  case (Cons a es)
  then have "split_sep (a @ abs_path es) = a # es"
    by (simp add: plain_elem_def)
  then show ?case
    using Cons.prems(1) by (simp add: abs_path_def split_sep_plain)
qed

lemma clean_plain:
  "list_all plain_elem es \<Longrightarrow> foldl (clean_elem r) out es = out @ es"
  by (induction es arbitrary: out) (simp_all add: clean_elem_def plain_elem_def)

lemma Join_abs: "es \<noteq> [] \<Longrightarrow> ''/'' @ strings_Join es ''/'' = abs_path es"
proof (induction es)
  case Nil
  then show ?case by simp
next
  case (Cons e es)
  then show ?case by (cases es) (simp_all add: abs_path_def)
qed

lemma Clean_abs:
  assumes "es \<noteq> []" and "list_all plain_elem es"
  shows "filepath_Clean (abs_path es) = abs_path es"
proof -
  obtain e es' where es: "es = e # es'" using assms(1) by (cases es) auto
  have hd: "abs_path es = CHR ''/'' # (e @ abs_path es')"
    by (simp add: es abs_path_def)
  have sp: "split_sep (abs_path es) = [] # es"
    using split_sep_abs [of "[]" es] assms(2) by simp
  have "foldl (clean_elem True) [] ([] # es) = es"
    using clean_plain [OF assms(2), of True "[]"] by (simp add: clean_elem_def)
  then have "filepath_Clean (abs_path es) = ''/'' @ strings_Join es ''/''"
    unfolding filepath_Clean_def hd [symmetric] sp
    by (simp add: hd IsPathSeparator_def Let_def sp [unfolded hd])
  then show ?thesis by (simp only: Join_abs [OF assms(1)])
qed

lemma Join_tmp_duckdb:
  assumes "es \<noteq> []" and "list_all plain_elem es"
  shows "filepath_Join (abs_path es) ''tmp.duckdb'' = abs_path es @ ''/tmp.duckdb''"
proof -
  have ne: "abs_path es \<noteq> []"
    using assms(1) by (cases es) (simp_all add: abs_path_def)
  have app: "abs_path es @ ''/tmp.duckdb'' = abs_path (es @ [''tmp.duckdb''])"
    by (simp add: abs_path_def)
  have "list_all plain_elem (es @ [''tmp.duckdb''])"
    using assms(2) by (simp add: plain_elem_def)
  then have "filepath_Clean (abs_path (es @ [''tmp.duckdb''])) = abs_path (es @ [''tmp.duckdb''])"
    by (intro Clean_abs) simp_all
  then show ?thesis
    using ne by (simp add: filepath_Join_def app)
qed

subsection \<open>Materialization\<close>

lemma load_parquet':
  "createTemporaryTable env fn d Parquet strict =
     ([Cmd [''duckdb'', filepath_Join d ''tmp.duckdb'', ''-c'',
            ''CREATE TABLE '' @ TableName @ '' AS SELECT * FROM read_parquet(['' @ fn @ '']);'']],
      map_option (\<lambda>e. ''failed to create temporary table: '' @ run_error_text e)
        (run env [''duckdb'', filepath_Join d ''tmp.duckdb'', ''-c'',
                  ''CREATE TABLE '' @ TableName @ '' AS SELECT * FROM read_parquet(['' @ fn @ '']);'']))"
  by (simp add: load_parquet TableName_def)

lemma load_csv':
  "createTemporaryTable env fn d CSV strict =
     ([Cmd [''duckdb'', filepath_Join d ''tmp.duckdb'', ''-c'',
            ''CREATE TABLE '' @ TableName @ '' AS SELECT * FROM read_csv('' @ fn
              @ '', strict_mode='' @ (if strict then ''true'' else ''false'') @ '');'']],
      map_option (\<lambda>e. ''failed to create temporary table: '' @ run_error_text e)
        (run env [''duckdb'', filepath_Join d ''tmp.duckdb'', ''-c'',
                  ''CREATE TABLE '' @ TableName @ '' AS SELECT * FROM read_csv('' @ fn
                    @ '', strict_mode='' @ (if strict then ''true'' else ''false'') @ '');'']))"
  by (simp add: load_csv TableName_def)

lemma load_shape:
  assumes "ff = Parquet \<or> ff = CSV"
  shows "\<exists>c. createTemporaryTable env fn d ff strict =
           ([Cmd c], map_option (\<lambda>e. ''failed to create temporary table: '' @ run_error_text e)
                       (run env c))"
  using assms load_parquet [of env fn d strict] load_csv [of env fn d strict] by blast

lemma cmds_of_append: "cmds_of (a @ b) = cmds_of a @ cmds_of b"
  by (induction a rule: cmds_of.induct) simp_all

lemma cmds_of_exit: "cmds_of (trace (exitWithError tr msg)) = cmds_of tr"
  by (simp add: exitWithError_def cmds_of_append)

lemma cmds_of_deferred: "cmds_of (trace (run_deferred flag ds tr)) = cmds_of tr"
  by (induction flag ds tr rule: run_deferred.induct) (simp_all add: cmds_of_append)

lemma outcome_exit: "outcome (exitWithError tr msg) = Exited 1"
  by (simp add: exitWithError_def)

lemma run_after_load:
  assumes ff: "determineFileFormat p \<noteq> []" and d: "mkdirTemp env = Inr d"
    and fn: "processInputFiles env p (determineFileFormat p) = Inr fn"
    and c: "createTemporaryTable env fn d (determineFileFormat p) strict =
              ([Cmd c], map_option (\<lambda>e. ''failed to create temporary table: '' @ run_error_text e)
                          (run env c))"
  shows "run env c = Some e \<Longrightarrow>
           runCommand env sigs (p # rest) strict =
             exitWithError [Stdout (banner_setup @ nl),
                            Stdout (''Detected file format: '' @ determineFileFormat p @ nl),
                            MkdirTemp d,
                            Stdout (''Using temporary directory: '' @ d @ nl),
                            Cmd c]
               (''Creating temporary table failed: failed to create temporary table: ''
                  @ run_error_text e)"
    and "run env c = None \<Longrightarrow>
           cmds_of (trace (runCommand env sigs (p # rest) strict)) =
             [c, [''duckdb'', filepath_Join d ''tmp.duckdb'']]"
proof -
  assume "run env c = Some e"
  then have "createTemporaryTable env fn d (determineFileFormat p) strict =
      ([Cmd c], Some (''failed to create temporary table: '' @ run_error_text e))"
    using c by simp
  from run_load_fails [OF ff d fn this]
  show "runCommand env sigs (p # rest) strict =
             exitWithError [Stdout (banner_setup @ nl),
                            Stdout (''Detected file format: '' @ determineFileFormat p @ nl),
                            MkdirTemp d,
                            Stdout (''Using temporary directory: '' @ d @ nl),
                            Cmd c]
               (''Creating temporary table failed: failed to create temporary table: ''
                  @ run_error_text e)"
    by simp
next
  assume "run env c = None"
  then have ok: "createTemporaryTable env fn d (determineFileFormat p) strict = ([Cmd c], None)"
    using c by simp
  show "cmds_of (trace (runCommand env sigs (p # rest) strict)) =
             [c, [''duckdb'', filepath_Join d ''tmp.duckdb'']]"
  proof (cases "run env [''duckdb'', filepath_Join d ''tmp.duckdb'']")
    case None
    show ?thesis
      by (simp only: run_completes [OF ff d fn ok None] cmds_of_deferred) (simp add: cmds_of_append)
  next
    case (Some e')
    show ?thesis
      by (simp only: run_launch_fails [OF ff d fn ok Some] cmds_of_exit) (simp add: cmds_of_append)
  qed
qed

lemma format_examples:
  "determineFileFormat ''data.csv'' = CSV"
  "determineFileFormat ''missing.csv'' = CSV"
  "determineFileFormat ''*.parquet'' = Parquet"
  "determineFileFormat ''nothing-*.parquet'' = Parquet"
  by code_simp+

text \<open>
  Claim C7. \<open>createTemporaryTable\<close> builds one statement, \<^verbatim>\<open>read_parquet\<close> over the
  file list for Parquet and \<^verbatim>\<open>read_csv\<close> with \<^verbatim>\<open>strict_mode\<close> set to the flag for CSV,
  on the table named by the constant \<open>TableName\<close>, and runs it once, as the argument
  of \<^verbatim>\<open>-c\<close>, on the database \<^verbatim>\<open>tmp.duckdb\<close> joined to the temporary directory (for a
  directory that is a clean absolute path, the directory followed by \<^verbatim>\<open>/tmp.duckdb\<close>).
  When that subprocess fails, by not starting or by ending badly, \<open>runCommand\<close> prints
  the error and exits with status 1, and the load is the only subprocess of the run;
  when it succeeds the run has exactly two subprocesses, the load and the session.
\<close>

theorem C7_materialization:
  "createTemporaryTable env fn d Parquet strict =
     ([Cmd [''duckdb'', filepath_Join d ''tmp.duckdb'', ''-c'',
            ''CREATE TABLE '' @ TableName @ '' AS SELECT * FROM read_parquet(['' @ fn @ '']);'']],
      map_option (\<lambda>e. ''failed to create temporary table: '' @ run_error_text e)
        (run env [''duckdb'', filepath_Join d ''tmp.duckdb'', ''-c'',
                  ''CREATE TABLE '' @ TableName @ '' AS SELECT * FROM read_parquet(['' @ fn @ '']);'']))
   \<and> createTemporaryTable env fn d CSV strict =
     ([Cmd [''duckdb'', filepath_Join d ''tmp.duckdb'', ''-c'',
            ''CREATE TABLE '' @ TableName @ '' AS SELECT * FROM read_csv('' @ fn
              @ '', strict_mode='' @ (if strict then ''true'' else ''false'') @ '');'']],
      map_option (\<lambda>e. ''failed to create temporary table: '' @ run_error_text e)
        (run env [''duckdb'', filepath_Join d ''tmp.duckdb'', ''-c'',
                  ''CREATE TABLE '' @ TableName @ '' AS SELECT * FROM read_csv('' @ fn
                    @ '', strict_mode='' @ (if strict then ''true'' else ''false'') @ '');'']))
   \<and> TableName = ''p''
   \<and> (es \<noteq> [] \<and> list_all plain_elem es \<longrightarrow>
        filepath_Join (abs_path es) ''tmp.duckdb'' = abs_path es @ ''/tmp.duckdb'')
   \<and> (determineFileFormat p \<noteq> [] \<and> mkdirTemp env = Inr d
        \<and> processInputFiles env p (determineFileFormat p) = Inr fn \<longrightarrow>
        (\<exists>c. fst (createTemporaryTable env fn d (determineFileFormat p) strict) = [Cmd c]
           \<and> (\<forall>e. run env c = Some e \<longrightarrow>
                 runCommand env sigs (p # rest) strict =
                   exitWithError [Stdout (banner_setup @ nl),
                                  Stdout (''Detected file format: '' @ determineFileFormat p @ nl),
                                  MkdirTemp d,
                                  Stdout (''Using temporary directory: '' @ d @ nl),
                                  Cmd c]
                     (''Creating temporary table failed: failed to create temporary table: ''
                        @ run_error_text e)
                 \<and> outcome (runCommand env sigs (p # rest) strict) = Exited 1
                 \<and> cmds_of (trace (runCommand env sigs (p # rest) strict)) = [c])
           \<and> (run env c = None \<longrightarrow>
                 cmds_of (trace (runCommand env sigs (p # rest) strict)) =
                   [c, [''duckdb'', filepath_Join d ''tmp.duckdb'']])))"
proof (intro conjI impI)
  show "TableName = ''p''" by (simp add: TableName_def)
next
  assume "es \<noteq> [] \<and> list_all plain_elem es"
  then show "filepath_Join (abs_path es) ''tmp.duckdb'' = abs_path es @ ''/tmp.duckdb''"
    by (simp add: Join_tmp_duckdb)
next
  assume a: "determineFileFormat p \<noteq> [] \<and> mkdirTemp env = Inr d
        \<and> processInputFiles env p (determineFileFormat p) = Inr fn"
  then have "determineFileFormat p = Parquet \<or> determineFileFormat p = CSV"
    using determineFileFormat_cases [of p] by blast
  then have "\<exists>c. createTemporaryTable env fn d (determineFileFormat p) strict =
           ([Cmd c], map_option (\<lambda>e. ''failed to create temporary table: '' @ run_error_text e)
                       (run env c))"
    by (rule load_shape)
  then obtain c where c: "createTemporaryTable env fn d (determineFileFormat p) strict =
           ([Cmd c], map_option (\<lambda>e. ''failed to create temporary table: '' @ run_error_text e)
                       (run env c))" ..
  from a have ff: "determineFileFormat p \<noteq> []" and d: "mkdirTemp env = Inr d"
    and fn: "processInputFiles env p (determineFileFormat p) = Inr fn"
    by simp_all
  show "\<exists>c. fst (createTemporaryTable env fn d (determineFileFormat p) strict) = [Cmd c]
           \<and> (\<forall>e. run env c = Some e \<longrightarrow>
                 runCommand env sigs (p # rest) strict =
                   exitWithError [Stdout (banner_setup @ nl),
                                  Stdout (''Detected file format: '' @ determineFileFormat p @ nl),
                                  MkdirTemp d,
                                  Stdout (''Using temporary directory: '' @ d @ nl),
                                  Cmd c]
                     (''Creating temporary table failed: failed to create temporary table: ''
                        @ run_error_text e)
                 \<and> outcome (runCommand env sigs (p # rest) strict) = Exited 1
                 \<and> cmds_of (trace (runCommand env sigs (p # rest) strict)) = [c])
           \<and> (run env c = None \<longrightarrow>
                 cmds_of (trace (runCommand env sigs (p # rest) strict)) =
                   [c, [''duckdb'', filepath_Join d ''tmp.duckdb'']])"
  proof (intro exI [of _ c] conjI allI impI)
    show "fst (createTemporaryTable env fn d (determineFileFormat p) strict) = [Cmd c]"
      by (simp only: c fst_conv)
  next
    fix e
    assume e: "run env c = Some e"
    note r = run_after_load(1) [OF ff d fn c e]
    show "runCommand env sigs (p # rest) strict =
                   exitWithError [Stdout (banner_setup @ nl),
                                  Stdout (''Detected file format: '' @ determineFileFormat p @ nl),
                                  MkdirTemp d,
                                  Stdout (''Using temporary directory: '' @ d @ nl),
                                  Cmd c]
                     (''Creating temporary table failed: failed to create temporary table: ''
                        @ run_error_text e)"
      by (rule r)
    show "outcome (runCommand env sigs (p # rest) strict) = Exited 1"
      by (simp only: r outcome_exit)
    show "cmds_of (trace (runCommand env sigs (p # rest) strict)) = [c]"
      by (simp only: r cmds_of_exit cmds_of.simps)
  next
    assume "run env c = None"
    then show "cmds_of (trace (runCommand env sigs (p # rest) strict)) =
                   [c, [''duckdb'', filepath_Join d ''tmp.duckdb'']]"
      by (rule run_after_load(2) [OF ff d fn c])
  qed
qed (rule load_parquet' load_csv')+

theorem C7_materialization_witness:
  "outcome (runCommand load_fail_env [] [''data.csv''] True) = Exited 1
   \<and> cmds_of (trace (runCommand load_fail_env [] [''data.csv''] True)) =
       [[''duckdb'', ''/tmp/dpi123/tmp.duckdb'', ''-c'',
         ''CREATE TABLE p AS SELECT * FROM read_csv('' @ [sq] @ ''data.csv'' @ [sq]
           @ '', strict_mode=true);'']]
   \<and> cmds_of (trace (runCommand example_env [] [''data.csv''] True)) =
       [[''duckdb'', ''/tmp/dpi123/tmp.duckdb'', ''-c'',
         ''CREATE TABLE p AS SELECT * FROM read_csv('' @ [sq] @ ''data.csv'' @ [sq]
           @ '', strict_mode=true);''],
        [''duckdb'', ''/tmp/dpi123/tmp.duckdb'']]
   \<and> filepath_Join ''/tmp/dpi123'' ''tmp.duckdb'' = ''/tmp/dpi123/tmp.duckdb''"
proof -
  have j: "abs_path [''tmp'', ''dpi123''] = ''/tmp/dpi123''"
    "list_all plain_elem [''tmp'', ''dpi123'']"
    by (simp_all add: abs_path_def plain_elem_def)
  have r: "processInputFiles load_fail_env ''data.csv'' CSV = Inr ([sq] @ ''data.csv'' @ [sq])"
    "processInputFiles example_env ''data.csv'' CSV = Inr ([sq] @ ''data.csv'' @ [sq])"
    by (simp_all add: resolve_other formats_distinct load_fail_env_def failing_env_def example_env_def)
  have m: "mkdirTemp load_fail_env = Inr ''/tmp/dpi123''" "mkdirTemp example_env = Inr ''/tmp/dpi123''"
    by (simp_all add: load_fail_env_def failing_env_def example_env_def)
  have e: "run load_fail_env = (\<lambda>args. if ''-c'' \<in> set args then Some (ExitError ''exit status 1'') else None)"
    "run example_env = (\<lambda>args. None)"
    by (simp_all add: load_fail_env_def failing_env_def example_env_def)
  have q: "[''duckdb'', filepath_Join ''/tmp/dpi123'' ''tmp.duckdb'', ''-c'',
            ''CREATE TABLE '' @ TableName @ '' AS SELECT * FROM read_csv('' @ ([sq] @ ''data.csv'' @ [sq])
              @ '', strict_mode='' @ (if True then ''true'' else ''false'') @ '');'']
         = [''duckdb'', filepath_Join ''/tmp/dpi123'' ''tmp.duckdb'', ''-c'',
            ''CREATE TABLE p AS SELECT * FROM read_csv('' @ [sq] @ ''data.csv'' @ [sq]
              @ '', strict_mode=true);'']"
    by (simp add: TableName_def)
  note t1 = C7_materialization [where env = load_fail_env and fn = "[sq] @ ''data.csv'' @ [sq]"
        and d = "''/tmp/dpi123''" and strict = True and es = "[''tmp'', ''dpi123'']"
        and p = "''data.csv''" and sigs = "[]" and rest = "[]"]
  note t2 = C7_materialization [where env = example_env and fn = "[sq] @ ''data.csv'' @ [sq]"
        and d = "''/tmp/dpi123''" and strict = True and es = "[''tmp'', ''dpi123'']"
        and p = "''data.csv''" and sigs = "[]" and rest = "[]"]
  have path: "filepath_Join ''/tmp/dpi123'' ''tmp.duckdb'' = ''/tmp/dpi123/tmp.duckdb''"
    using t1 [THEN conjunct2, THEN conjunct2, THEN conjunct2, THEN conjunct1] j by simp
  have h1: "determineFileFormat ''data.csv'' \<noteq> [] \<and> mkdirTemp load_fail_env = Inr ''/tmp/dpi123''
        \<and> processInputFiles load_fail_env ''data.csv'' (determineFileFormat ''data.csv'')
            = Inr ([sq] @ ''data.csv'' @ [sq])"
    by (simp only: format_examples formats_distinct r m simp_thms)
  have h2: "determineFileFormat ''data.csv'' \<noteq> [] \<and> mkdirTemp example_env = Inr ''/tmp/dpi123''
        \<and> processInputFiles example_env ''data.csv'' (determineFileFormat ''data.csv'')
            = Inr ([sq] @ ''data.csv'' @ [sq])"
    by (simp only: format_examples formats_distinct r m simp_thms)
  from t1 [THEN conjunct2, THEN conjunct2, THEN conjunct2, THEN conjunct2, THEN mp, OF h1]
  obtain c where c1: "fst (createTemporaryTable load_fail_env ([sq] @ ''data.csv'' @ [sq])
                         ''/tmp/dpi123'' (determineFileFormat ''data.csv'') True) = [Cmd c]"
    and c2: "\<forall>e. run load_fail_env c = Some e \<longrightarrow>
               runCommand load_fail_env [] [''data.csv''] True =
                 exitWithError [Stdout (banner_setup @ nl),
                                Stdout (''Detected file format: '' @ determineFileFormat ''data.csv'' @ nl),
                                MkdirTemp ''/tmp/dpi123'',
                                Stdout (''Using temporary directory: '' @ ''/tmp/dpi123'' @ nl),
                                Cmd c]
                   (''Creating temporary table failed: failed to create temporary table: ''
                      @ run_error_text e)
               \<and> outcome (runCommand load_fail_env [] [''data.csv''] True) = Exited 1
               \<and> cmds_of (trace (runCommand load_fail_env [] [''data.csv''] True)) = [c]"
    by (elim exE conjE)
  have cv: "c = [''duckdb'', ''/tmp/dpi123/tmp.duckdb'', ''-c'',
         ''CREATE TABLE p AS SELECT * FROM read_csv('' @ [sq] @ ''data.csv'' @ [sq]
           @ '', strict_mode=true);'']"
    using c1 unfolding format_examples t1 [THEN conjunct2, THEN conjunct1] fst_conv path
    by (simp add: TableName_def)
  have "run load_fail_env c = Some (ExitError ''exit status 1'')"
    unfolding cv e by simp
  with c2 have a: "outcome (runCommand load_fail_env [] [''data.csv''] True) = Exited 1"
    and b: "cmds_of (trace (runCommand load_fail_env [] [''data.csv''] True)) = [c]"
    by blast+
  from t2 [THEN conjunct2, THEN conjunct2, THEN conjunct2, THEN conjunct2, THEN mp, OF h2]
  obtain c' where c1': "fst (createTemporaryTable example_env ([sq] @ ''data.csv'' @ [sq])
                         ''/tmp/dpi123'' (determineFileFormat ''data.csv'') True) = [Cmd c']"
    and c3': "run example_env c' = None \<longrightarrow>
                 cmds_of (trace (runCommand example_env [] [''data.csv''] True)) =
                   [c', [''duckdb'', filepath_Join ''/tmp/dpi123'' ''tmp.duckdb'']]"
    by (elim exE conjE)
  have cv': "c' = [''duckdb'', ''/tmp/dpi123/tmp.duckdb'', ''-c'',
         ''CREATE TABLE p AS SELECT * FROM read_csv('' @ [sq] @ ''data.csv'' @ [sq]
           @ '', strict_mode=true);'']"
    using c1' unfolding format_examples t2 [THEN conjunct2, THEN conjunct1] fst_conv path
    by (simp add: TableName_def)
  have "run example_env c' = None"
    unfolding e by simp
  with c3' have b': "cmds_of (trace (runCommand example_env [] [''data.csv''] True)) =
                   [c', [''duckdb'', filepath_Join ''/tmp/dpi123'' ''tmp.duckdb'']]"
    by (rule mp)
  show ?thesis
    unfolding a b b' path cv cv' by simp
qed

subsection \<open>The signal listener\<close>

lemma listener_done: "\<not> waiting st \<Longrightarrow> foldl listener_step st sigs = st"
  by (induction sigs) (simp_all add: listener_step_def)

lemma deliver_Nil: "deliver [] = listener_init"
  by (simp add: deliver_def)

lemma deliver_Cons:
  "deliver (s # later) =
     \<lparr>signalReceived = True, waiting = False,
      notices = [Stderr (nl @ ''Received signal '' @ signal_String s
                           @ '', waiting for DuckDB to exit...'' @ nl)]\<rparr>"
  by (simp add: deliver_def listener_step_def listener_init_def listener_done)

lemma deliver_flag: "signalReceived (deliver sigs) = (sigs \<noteq> [])"
  by (cases sigs) (simp_all add: deliver_Nil deliver_Cons listener_init_def)

text \<open>
  Claim C8. The flag starts unset. After any number \<open>k\<close> of the signals that arrive
  it is set exactly when at least one has arrived, so it changes once, at the first
  signal, and is never unset again. The first signal also prints the one notice; a later
  signal changes nothing, and no action of the listener is an exit.
\<close>

theorem C8_signal_state:
  "signalReceived listener_init = False \<and> waiting listener_init
   \<and> signalReceived (deliver (take k sigs)) = (0 < k \<and> sigs \<noteq> [])
   \<and> (signalReceived (deliver sigs) \<longrightarrow> signalReceived (deliver (sigs @ later)))
   \<and> deliver (s # later) =
        \<lparr>signalReceived = True, waiting = False,
         notices = [Stderr (nl @ ''Received signal '' @ signal_String s
                              @ '', waiting for DuckDB to exit...'' @ nl)]\<rparr>
   \<and> listener_step (deliver (s # later)) s' = deliver (s # later)
   \<and> (\<forall>n. OsExit n \<notin> set (notices (deliver sigs)))"
proof (intro conjI impI allI)
  show "signalReceived listener_init = False" "waiting listener_init"
    by (simp_all add: listener_init_def)
  show "signalReceived (deliver (take k sigs)) = (0 < k \<and> sigs \<noteq> [])"
    by (simp add: deliver_flag)
  show "deliver (s # later) =
        \<lparr>signalReceived = True, waiting = False,
         notices = [Stderr (nl @ ''Received signal '' @ signal_String s
                              @ '', waiting for DuckDB to exit...'' @ nl)]\<rparr>"
    by (rule deliver_Cons)
  show "listener_step (deliver (s # later)) s' = deliver (s # later)"
    by (simp add: deliver_Cons listener_step_def)
  show "OsExit n \<notin> set (notices (deliver sigs))" for n
    by (cases sigs) (simp_all add: deliver_Nil deliver_Cons listener_init_def)
next
  assume "signalReceived (deliver sigs)"
  then show "signalReceived (deliver (sigs @ later))"
    by (simp add: deliver_flag)
qed

theorem C8_signal_state_witness:
  "signalReceived (deliver []) = False
   \<and> signalReceived (deliver [SIGTERM])
   \<and> signalReceived (deliver [SIGTERM, SIGINT, SIGINT])
   \<and> notices (deliver [SIGTERM, SIGINT, SIGINT]) =
        [Stderr (nl @ ''Received signal terminated, waiting for DuckDB to exit...'' @ nl)]"
  using C8_signal_state [of 0 "[SIGTERM]" "[SIGINT, SIGINT]" SIGTERM SIGINT]
    C8_signal_state [of 1 "[SIGTERM]" "[SIGINT, SIGINT]" SIGTERM SIGINT]
  by simp

subsection \<open>How the run ends\<close>

lemma run_status:
  "exit_status (outcome (runCommand env sigs (p # rest) strict)) =
     (if run_fails env p strict then 1 else if sigs \<noteq> [] then 130 else 0)"
proof (cases "determineFileFormat p = []")
  case True
  then show ?thesis by (simp add: run_unsupported outcome_exit run_fails_def)
next
  case ff: False
  show ?thesis
  proof (cases "mkdirTemp env")
    case (Inl err)
    then show ?thesis using ff by (simp add: run_mkdir_fails outcome_exit run_fails_def)
  next
    case d: (Inr d)
    show ?thesis
    proof (cases "processInputFiles env p (determineFileFormat p)")
      case (Inl err)
      then show ?thesis using ff d
        by (simp add: run_resolve_fails [OF ff d Inl] outcome_exit run_fails_def)
    next
      case fn: (Inr fn)
      obtain evs eo where l: "createTemporaryTable env fn d (determineFileFormat p) strict = (evs, eo)"
        by (cases "createTemporaryTable env fn d (determineFileFormat p) strict")
      show ?thesis
      proof (cases eo)
        case (Some err)
        then show ?thesis using ff d fn l
          by (simp add: run_load_fails [OF ff d fn l [unfolded Some]] outcome_exit run_fails_def)
      next
        case None
        note l' = l [unfolded None]
        show ?thesis
        proof (cases "run env [''duckdb'', filepath_Join d ''tmp.duckdb'']")
          case (Some e)
          then show ?thesis using ff d fn l'
            by (simp add: run_launch_fails [OF ff d fn l' Some] outcome_exit run_fails_def)
        next
          case n: None
          then show ?thesis using ff d fn l'
            by (simp add: run_completes [OF ff d fn l' n] run_fails_def deliver_flag)
        qed
      qed
    qed
  qed
qed

lemma run_signalled:
  assumes "\<not> run_fails env p strict" and "sigs \<noteq> []" and d: "mkdirTemp env = Inr d"
  shows "\<exists>pre. trace (runCommand env sigs (p # rest) strict) =
           pre @ [RemoveAll d, Stderr (''Cleanup completed, exiting'' @ nl), OsExit 130]"
proof -
  from assms(1) have ff: "determineFileFormat p \<noteq> []"
    by (auto simp: run_fails_def)
  from assms(1) ff d obtain fn where fn: "processInputFiles env p (determineFileFormat p) = Inr fn"
    by (cases "processInputFiles env p (determineFileFormat p)") (auto simp: run_fails_def)
  obtain evs eo where l: "createTemporaryTable env fn d (determineFileFormat p) strict = (evs, eo)"
    by (cases "createTemporaryTable env fn d (determineFileFormat p) strict")
  from assms(1) ff d fn l have eo: "eo = None"
    by (cases eo) (auto simp: run_fails_def)
  from assms(1) ff d fn l eo have n: "run env [''duckdb'', filepath_Join d ''tmp.duckdb''] = None"
    by (cases "run env [''duckdb'', filepath_Join d ''tmp.duckdb'']") (auto simp: run_fails_def)
  show ?thesis
    using assms(2) by (simp add: run_completes [OF ff d fn l [unfolded eo] n] deliver_flag)
qed

lemma load_events:
  "createTemporaryTable env fn d ff strict = (evs, eo) \<Longrightarrow> RemoveAll x \<notin> set evs"
  by (auto simp: createTemporaryTable_def executeCommand_def Let_def
      split: if_splits option.splits sum.splits)

lemma cleanup_iff_no_failure:
  "RemoveAll x \<in> set (trace (runCommand env sigs (p # rest) strict))
     \<longleftrightarrow> \<not> run_fails env p strict \<and> mkdirTemp env = Inr x"
proof (cases "determineFileFormat p = []")
  case True
  then show ?thesis by (simp add: run_unsupported exitWithError_def run_fails_def)
next
  case ff: False
  show ?thesis
  proof (cases "mkdirTemp env")
    case (Inl err)
    then show ?thesis using ff by (simp add: run_mkdir_fails exitWithError_def run_fails_def)
  next
    case d: (Inr d)
    show ?thesis
    proof (cases "processInputFiles env p (determineFileFormat p)")
      case (Inl err)
      then show ?thesis using ff d
        by (simp add: run_resolve_fails [OF ff d Inl] exitWithError_def run_fails_def)
    next
      case fn: (Inr fn)
      obtain evs eo where l: "createTemporaryTable env fn d (determineFileFormat p) strict = (evs, eo)"
        by (cases "createTemporaryTable env fn d (determineFileFormat p) strict")
      note ev = load_events [OF l, of x]
      show ?thesis
      proof (cases eo)
        case (Some err)
        then show ?thesis using ff d fn l ev
          by (simp add: run_load_fails [OF ff d fn l [unfolded Some]] exitWithError_def run_fails_def)
      next
        case None
        note l' = l [unfolded None]
        show ?thesis
        proof (cases "run env [''duckdb'', filepath_Join d ''tmp.duckdb'']")
          case (Some e)
          then show ?thesis using ff d fn l' ev
            by (simp add: run_launch_fails [OF ff d fn l' Some] exitWithError_def run_fails_def)
        next
          case n: None
          then show ?thesis using ff d fn l' ev
            by (auto simp: run_completes [OF ff d fn l' n] run_fails_def)
        qed
      qed
    qed
  qed
qed

text \<open>
  Claim C1 says that the temporary directory is removed on every way out of the
  command. The removal is deferred, and \<open>exitWithError\<close> leaves through \<^verbatim>\<open>os.Exit\<close>,
  which runs no deferred call: by \<open>cleanup_iff_no_failure\<close> the removal runs exactly
  when the run meets no fatal error. The runs below have created \<^verbatim>\<open>/tmp/dpi123\<close> and exit
  with status 1 without removing it: a pattern that matches nothing, a load that fails,
  and a session that a termination signal ends with an error. The last line is the run
  with a signal in which the session ends well: there the directory is removed.
\<close>

theorem C1_cleanup_skipped_on_error_exit:
  "runCommand example_env [] [''nothing-*.parquet''] False =
     \<lparr>trace = [Stdout (banner_setup @ nl),
               Stdout (''Detected file format: parquet'' @ nl),
               MkdirTemp ''/tmp/dpi123'',
               Stdout (''Using temporary directory: /tmp/dpi123'' @ nl),
               Stderr (''Error: no Parquet files found matching pattern: nothing-*.parquet'' @ nl),
               OsExit 1],
      outcome = Exited 1\<rparr>
   \<and> MkdirTemp ''/tmp/dpi123'' \<in> set (trace (runCommand load_fail_env [] [''data.csv''] False))
   \<and> RemoveAll ''/tmp/dpi123'' \<notin> set (trace (runCommand load_fail_env [] [''data.csv''] False))
   \<and> outcome (runCommand load_fail_env [] [''data.csv''] False) = Exited 1
   \<and> MkdirTemp ''/tmp/dpi123'' \<in> set (trace (runCommand launch_fail_env [SIGTERM] [''*.parquet''] False))
   \<and> RemoveAll ''/tmp/dpi123'' \<notin> set (trace (runCommand launch_fail_env [SIGTERM] [''*.parquet''] False))
   \<and> outcome (runCommand launch_fail_env [SIGTERM] [''*.parquet''] False) = Exited 1
   \<and> RemoveAll ''/tmp/dpi123'' \<in> set (trace (runCommand example_env [SIGTERM] [''*.parquet''] False))"
  by code_simp

text \<open>
  Claim C2, as amended. For a path of the CSV format that does not exist, resolution
  fails with the not-found error and the process exits with status 1; the temporary
  directory is created \<^emph>\<open>before\<close> resolution, so when it can be created the trace holds
  its creation and ends with the message that the file does not exist, and when it
  cannot be created the run ends with that error instead.
\<close>

theorem C2_missing_csv:
  "determineFileFormat p = CSV \<and> stat env p = StatErr ENOENT \<longrightarrow>
     processInputFiles env p CSV = Inl (''file does not exist: '' @ p)
     \<and> exit_status (outcome (runCommand env sigs (p # rest) strict)) = 1
     \<and> (\<forall>d. mkdirTemp env = Inr d \<longrightarrow>
          (\<exists>pre post. trace (runCommand env sigs (p # rest) strict) =
             pre @ [MkdirTemp d] @ post
               @ [Stderr (''Error: file does not exist: '' @ p @ nl), OsExit 1]))
     \<and> (\<forall>err. mkdirTemp env = Inl err \<longrightarrow>
          (\<exists>pre. trace (runCommand env sigs (p # rest) strict) =
             pre @ [Stderr (''Error: Failed to create temporary directory: '' @ err @ nl), OsExit 1]))"
proof (intro impI conjI allI)
  assume a: "determineFileFormat p = CSV \<and> stat env p = StatErr ENOENT"
  then have ff: "determineFileFormat p \<noteq> []" by (simp add: formats_distinct)
  from a show r: "processInputFiles env p CSV = Inl (''file does not exist: '' @ p)"
    by (simp add: resolve_other formats_distinct)
  then have r': "processInputFiles env p (determineFileFormat p) = Inl (''file does not exist: '' @ p)"
    using a by simp
  show "exit_status (outcome (runCommand env sigs (p # rest) strict)) = 1"
  proof (cases "mkdirTemp env")
    case (Inl err)
    then show ?thesis by (simp add: run_mkdir_fails [OF ff Inl] outcome_exit)
  next
    case (Inr d)
    then show ?thesis by (simp add: run_resolve_fails [OF ff Inr r'] outcome_exit)
  qed
  show "\<exists>pre post. trace (runCommand env sigs (p # rest) strict) =
             pre @ [MkdirTemp d] @ post
               @ [Stderr (''Error: file does not exist: '' @ p @ nl), OsExit 1]"
    if d: "mkdirTemp env = Inr d" for d
  proof (intro exI)
    show "trace (runCommand env sigs (p # rest) strict) =
             [Stdout (banner_setup @ nl),
              Stdout (''Detected file format: '' @ determineFileFormat p @ nl)]
             @ [MkdirTemp d] @ [Stdout (''Using temporary directory: '' @ d @ nl)]
               @ [Stderr (''Error: file does not exist: '' @ p @ nl), OsExit 1]"
      by (simp add: run_resolve_fails [OF ff d r'] exitWithError_def)
  qed
  show "\<exists>pre. trace (runCommand env sigs (p # rest) strict) =
             pre @ [Stderr (''Error: Failed to create temporary directory: '' @ err @ nl), OsExit 1]"
    if e: "mkdirTemp env = Inl err" for err
    by (simp add: run_mkdir_fails [OF ff e] exitWithError_def)
qed

theorem C2_missing_csv_witness:
  "processInputFiles example_env ''missing.csv'' CSV = Inl ''file does not exist: missing.csv''
   \<and> exit_status (outcome (runCommand example_env [] [''missing.csv''] False)) = 1
   \<and> (\<exists>pre post. trace (runCommand example_env [] [''missing.csv''] False) =
             pre @ [MkdirTemp ''/tmp/dpi123''] @ post
               @ [Stderr (''Error: file does not exist: '' @ ''missing.csv'' @ nl), OsExit 1])"
proof -
  have h: "determineFileFormat ''missing.csv'' = CSV \<and> stat example_env ''missing.csv'' = StatErr ENOENT"
    by (simp add: format_examples example_env_def)
  have m: "mkdirTemp example_env = Inr ''/tmp/dpi123''"
    by (simp add: example_env_def)
  note t = C2_missing_csv [where env = example_env and p = "''missing.csv''" and sigs = "[]"
      and rest = "[]" and strict = False, THEN mp, OF h]
  from t [THEN conjunct2, THEN conjunct2, THEN conjunct1, THEN spec, THEN mp, OF m]
    t [THEN conjunct1] t [THEN conjunct2, THEN conjunct1]
  show ?thesis by simp
qed

text \<open>
  Claim C2 as it is written ("no staging directory is ever created") fails on
  \<^verbatim>\<open>missing.csv\<close>: the run creates \<^verbatim>\<open>/tmp/dpi123\<close>.
\<close>

theorem C2_staging_directory_created_counterexample:
  "determineFileFormat ''missing.csv'' = CSV
   \<and> stat example_env ''missing.csv'' = StatErr ENOENT
   \<and> processInputFiles example_env ''missing.csv'' CSV = Inl ''file does not exist: missing.csv''
   \<and> exit_status (outcome (runCommand example_env [] [''missing.csv''] False)) = 1
   \<and> MkdirTemp ''/tmp/dpi123'' \<in> set (trace (runCommand example_env [] [''missing.csv''] False))"
  by code_simp

text \<open>
  Claim C3, as amended. When no signal has arrived the exit status is 1 if the run meets
  a fatal error (unsupported format, no temporary directory, failed resolution, failed
  load, failed session) and 0 if it meets none. When a signal has arrived and the run
  meets no fatal error the status is 130, whichever of the two signals it is, and the
  removal of the temporary directory comes before the exit in the trace. Nothing is said
  of a run that has both a signal and a fatal error.
\<close>

theorem C3_exit_status:
  "exit_status (outcome (runCommand env [] (p # rest) strict)) =
     (if run_fails env p strict then 1 else 0)
   \<and> (\<not> run_fails env p strict \<and> sigs \<noteq> [] \<longrightarrow>
        exit_status (outcome (runCommand env sigs (p # rest) strict)) = 130)
   \<and> (\<not> run_fails env p strict \<and> sigs \<noteq> [] \<and> mkdirTemp env = Inr d \<longrightarrow>
        (\<exists>pre. trace (runCommand env sigs (p # rest) strict) =
           pre @ [RemoveAll d, Stderr (''Cleanup completed, exiting'' @ nl), OsExit 130]))"
proof (intro conjI impI)
  show "exit_status (outcome (runCommand env [] (p # rest) strict)) =
     (if run_fails env p strict then 1 else 0)"
    by (simp add: run_status)
next
  assume "\<not> run_fails env p strict \<and> sigs \<noteq> []"
  then show "exit_status (outcome (runCommand env sigs (p # rest) strict)) = 130"
    by (simp add: run_status)
next
  assume "\<not> run_fails env p strict \<and> sigs \<noteq> [] \<and> mkdirTemp env = Inr d"
  then show "\<exists>pre. trace (runCommand env sigs (p # rest) strict) =
           pre @ [RemoveAll d, Stderr (''Cleanup completed, exiting'' @ nl), OsExit 130]"
    using run_signalled [of env p strict sigs d rest] by simp
qed

theorem C3_exit_status_witness:
  "exit_status (outcome (runCommand example_env [] [''data.csv''] False)) = 0
   \<and> exit_status (outcome (runCommand example_env [SIGINT] [''data.csv''] False)) = 130
   \<and> exit_status (outcome (runCommand example_env [SIGTERM, SIGINT] [''data.csv''] False)) = 130
   \<and> exit_status (outcome (runCommand load_fail_env [] [''data.csv''] False)) = 1
   \<and> exit_status (outcome (runCommand example_env [] [''notes.txt''] False)) = 1
   \<and> (\<exists>pre. trace (runCommand example_env [SIGINT] [''data.csv''] False) =
           pre @ [RemoveAll ''/tmp/dpi123'', Stderr (''Cleanup completed, exiting'' @ nl), OsExit 130])"
proof -
  have f: "\<not> run_fails example_env ''data.csv'' False" "run_fails load_fail_env ''data.csv'' False"
    "run_fails example_env ''notes.txt'' False"
    by code_simp+
  have m: "mkdirTemp example_env = Inr ''/tmp/dpi123''"
    by (simp add: example_env_def)
  show ?thesis
    using C3_exit_status [of example_env "''data.csv''" "[]" False "[SIGINT]" "''/tmp/dpi123''"]
      C3_exit_status [of example_env "''data.csv''" "[]" False "[SIGTERM, SIGINT]"]
      C3_exit_status [of load_fail_env "''data.csv''" "[]" False]
      C3_exit_status [of example_env "''notes.txt''" "[]" False]
    by (simp add: f m)
qed

text \<open>
  Claim C3 as it is written (128 plus the number of the signal, so 143 for the
  termination signal) fails: after \<^verbatim>\<open>SIGTERM\<close>, in a run with no fatal error, the
  status is 130.
\<close>

theorem C3_exit_status_counterexample:
  "exit_status (outcome (runCommand example_env [SIGTERM] [''data.csv''] False)) = 130
   \<and> 128 + signal_number SIGTERM = 143"
  by code_simp

end
